theory Spec2Isabelle
  imports Complex_Main "HOL-Library.Sublist"
begin

section \<open>JavaScript values used by the Quantum Pay client\<close>

text \<open>
  Strings are lists of \<^typ>\<open>char\<close>; one \<^typ>\<open>char\<close> stands for one UTF-16 code unit in
  the range U+0000 .. U+00FF, so \<^const>\<open>length\<close> is JavaScript's \<^verbatim>\<open>.length\<close> on such
  strings.
\<close>

fun string_of_nat :: "nat \<Rightarrow> string" where
  "string_of_nat n =
     (if n < 10 then [''0123456789'' ! n]
      else string_of_nat (n div 10) @ [''0123456789'' ! (n mod 10)])"

fun join_comma :: "string list \<Rightarrow> string" where
  "join_comma [] = []"
| "join_comma [s] = s"
| "join_comma (s # t # ts) = s @ '','' @ join_comma (t # ts)"

text \<open>
  \<^verbatim>\<open>String.prototype.toLowerCase\<close> on the code units below 256: the letters A-Z and the
  Latin-1 capitals U+00C0 .. U+00DE (without the multiplication sign U+00D7) move up by 32.
  In both ranges the bit of value 32 is clear, so moving up by 32 sets it.
\<close>

fun lower_char :: "char \<Rightarrow> char" where
  "lower_char (Char b0 b1 b2 b3 b4 b5 b6 b7) =
     (let n = (of_char (Char b0 b1 b2 b3 b4 b5 b6 b7) :: nat)
      in if (65 \<le> n \<and> n \<le> 90) \<or> (192 \<le> n \<and> n \<le> 222 \<and> n \<noteq> 215)
         then Char b0 b1 b2 b3 b4 True b6 b7
         else Char b0 b1 b2 b3 b4 b5 b6 b7)"

definition toLowerCase :: "string \<Rightarrow> string" where
  "toLowerCase s = map lower_char s"

text \<open>\<^verbatim>\<open>hay.includes(needle)\<close>: the needle starts at some position of the haystack.\<close>

fun str_includes :: "string \<Rightarrow> string \<Rightarrow> bool" where
  "str_includes [] needle = (needle = [])"
| "str_includes (c # cs) needle = (prefix needle (c # cs) \<or> str_includes cs needle)"

text \<open>
  Values that arrive as parsed JSON. Numbers are the integral ones (no fraction, no
  exponent); the client reads a number of a response only for its truth value and its
  string form. An object is the list of its properties, one entry per key.
\<close>

datatype json =
    JNull
  | JBool bool
  | JNum int
  | JStr string
  | JArr "json list"
  | JObj "(string \<times> json) list"

fun truthy :: "json \<Rightarrow> bool" where
  "truthy JNull = False"
| "truthy (JBool b) = b"
| "truthy (JNum i) = (i \<noteq> 0)"
| "truthy (JStr s) = (s \<noteq> [])"
| "truthy (JArr xs) = True"
| "truthy (JObj kv) = True"

text \<open>
  \<^verbatim>\<open>String(v)\<close>, as a template literal, \<^verbatim>\<open>new Error(v)\<close> and
  \<^verbatim>\<open>localStorage.setItem\<close> apply it (integers below 10^21 in absolute value).
\<close>

fun to_string :: "json \<Rightarrow> string" where
  "to_string JNull = ''null''"
| "to_string (JBool b) = (if b then ''true'' else ''false'')"
| "to_string (JNum i) =
     (if i < 0 then ''-'' @ string_of_nat (nat (- i)) else string_of_nat (nat i))"
| "to_string (JStr s) = s"
| "to_string (JArr xs) = join_comma (map (\<lambda>x. if x = JNull then [] else to_string x) xs)"
| "to_string (JObj kv) = ''[object Object]''"

text \<open>
  Thrown values. The message of a \<^verbatim>\<open>TypeError\<close> or \<^verbatim>\<open>SyntaxError\<close> is the
  engine's own text; the model carries a representative of it.
\<close>

datatype js_error = Error string | TypeError string | SyntaxError string

fun message :: "js_error \<Rightarrow> string" where
  "message (Error m) = m"
| "message (TypeError m) = m"
| "message (SyntaxError m) = m"

datatype 'a outcome = Threw js_error | Returned 'a

text \<open>
  Reading a property that is no built-in one (\<^verbatim>\<open>message\<close>, \<^verbatim>\<open>authToken\<close>):
  \<^verbatim>\<open>null.k\<close> throws, an object answers from its properties, every other value answers
  \<^verbatim>\<open>undefined\<close> (here \<^const>\<open>None\<close>).
\<close>

fun get_prop :: "json \<Rightarrow> string \<Rightarrow> json option outcome" where
  "get_prop JNull k = Threw (TypeError (''Cannot read properties of null (reading '' @ k @ '')''))"
| "get_prop (JObj kv) k = Returned (map_of kv k)"
| "get_prop v k = Returned None"

definition truthy_opt :: "json option \<Rightarrow> bool" where
  "truthy_opt v = (case v of None \<Rightarrow> False | Some j \<Rightarrow> truthy j)"

text \<open>
  JavaScript numbers as far as the send-money form needs them: the sign, zero and
  \<^verbatim>\<open>NaN\<close> are exact, the rounding of a product is not modelled.
\<close>

datatype jsnum = NaN | NegInf | Fin rat | PosInf

fun times100 :: "jsnum \<Rightarrow> jsnum" where
  "times100 NaN = NaN"
| "times100 NegInf = NegInf"
| "times100 (Fin r) = Fin (r * 100)"
| "times100 PosInf = PosInf"

fun num_truthy :: "jsnum \<Rightarrow> bool" where
  "num_truthy NaN = False"
| "num_truthy (Fin r) = (r \<noteq> 0)"
| "num_truthy v = True"

fun num_le_zero :: "jsnum \<Rightarrow> bool" where
  "num_le_zero NaN = False"
| "num_le_zero NegInf = True"
| "num_le_zero (Fin r) = (r \<le> 0)"
| "num_le_zero PosInf = False"

text \<open>A form field (\<^verbatim>\<open>FormData.get\<close>): \<^const>\<open>None\<close> is \<^verbatim>\<open>null\<close>.\<close>

definition str_truthy :: "string option \<Rightarrow> bool" where
  "str_truthy v = (case v of None \<Rightarrow> False | Some s \<Rightarrow> s \<noteq> [])"

definition str_or :: "string option \<Rightarrow> string option \<Rightarrow> string option" where
  "str_or a b = (if str_truthy a then a else b)"


section \<open>The data model\<close>

record user =
  user_id :: string
  user_name :: string
  user_email :: string

record transaction =
  txn_id :: string
  amount :: int
  currency :: string
  sender_user_id :: string
  receiver_user_id :: string
  status :: string
  transaction_date :: int
  otp_code :: string
  otp_verified :: bool

text \<open>The object literal \<^verbatim>\<open>transactionData\<close> of \<^verbatim>\<open>handleSendMoney\<close>.\<close>

record transaction_data =
  td_amount :: jsnum
  td_currency :: string
  td_receiver_user_id :: "string option"
  td_sender_user_id :: string
  td_status :: string
  td_transaction_date :: int
  td_otp_code :: string
  td_otp_verified :: bool

text \<open>
  The object literal handed to \<^verbatim>\<open>updateTransaction\<close>; a field that the literal does
  not have is \<^const>\<open>None\<close>.
\<close>

record update_data =
  ud_otp_code :: "string option"
  ud_otp_verified :: "bool option"
  ud_status :: "string option"

text \<open>The argument of \<^verbatim>\<open>JSON.stringify\<close> in each request that carries a body.\<close>

datatype req_body =
    LoginBody string string
  | SignupBody string string string
  | TransactionBody transaction_data
  | UpdateBody update_data


section \<open>api-service.js: the HTTP client\<close>

record options =
  o_method :: "string option"
  o_headers :: "(string \<rightharpoonup> string) option"
  o_body :: "req_body option"

record config =
  c_method :: "string option"
  c_headers :: "string \<rightharpoonup> string"
  c_body :: "req_body option"

type_synonym request = "string \<times> config"

record response =
  http_status :: nat
  statusText :: string
  json_body :: "json option"

text \<open>
  \<^verbatim>\<open>response.ok\<close> is the status range 200 .. 299. \<^const>\<open>json_body\<close> is what
  \<^verbatim>\<open>response.json()\<close> resolves to; \<^const>\<open>None\<close> when the body is no JSON text
  and the promise is rejected.
\<close>

definition ok :: "response \<Rightarrow> bool" where
  "ok r = (200 \<le> http_status r \<and> http_status r \<le> 299)"

datatype fetch_result = Rejected js_error | Responded response

record api_state =
  authToken :: json
  localStorage :: "string \<rightharpoonup> string"
  requests :: "request list"

text \<open>
  \<^const>\<open>requests\<close> is not a field of the class: it records every call of
  \<^verbatim>\<open>fetch\<close>, in order. The network answers a request knowing the earlier ones.
\<close>

type_synonym network = "request list \<Rightarrow> request \<Rightarrow> fetch_result"

definition authBaseURL :: string where
  "authBaseURL = ''https://x8ki-letl-twmt.n7.xano.io/api:Yh3BvUig''"

definition transactionBaseURL :: string where
  "transactionBaseURL = ''https://x8ki-letl-twmt.n7.xano.io/api:1i6yBSwb''"

definition token_key :: string where
  "token_key = ''quantum_auth_token''"

definition new_QuantumPayAPI :: "(string \<rightharpoonup> string) \<Rightarrow> api_state" where
  "new_QuantumPayAPI storage =
     \<lparr>authToken = (case storage token_key of None \<Rightarrow> JNull | Some s \<Rightarrow> JStr s),
      localStorage = storage,
      requests = []\<rparr>"

definition defaultHeaders :: "api_state \<Rightarrow> (string \<rightharpoonup> string)" where
  "defaultHeaders api =
     (let h = [''Content-Type'' \<mapsto> ''application/json'']
      in if truthy (authToken api)
         then h(''Authorization'' \<mapsto> ''Bearer '' @ to_string (authToken api))
         else h)"

text \<open>
  \<^verbatim>\<open>{ headers: { ...defaultHeaders, ...options.headers }, ...options }\<close>: the second
  spread copies every property of \<^verbatim>\<open>options\<close>, its \<^verbatim>\<open>headers\<close> too when it has one.
\<close>

definition makeRequest_config :: "api_state \<Rightarrow> options \<Rightarrow> config" where
  "makeRequest_config api opts =
     (let merged = defaultHeaders api ++ (case o_headers opts of None \<Rightarrow> Map.empty | Some h \<Rightarrow> h)
      in \<lparr>c_method = o_method opts,
          c_headers = (case o_headers opts of None \<Rightarrow> merged | Some h \<Rightarrow> h),
          c_body = o_body opts\<rparr>)"

definition http_fallback :: "response \<Rightarrow> string" where
  "http_fallback r = ''HTTP '' @ string_of_nat (http_status r) @ '': '' @ statusText r"

definition handle_response :: "response \<Rightarrow> json outcome" where
  "handle_response r =
     (if \<not> ok r then
        (let errorData = (case json_body r of None \<Rightarrow> JObj [] | Some j \<Rightarrow> j)
         in case get_prop errorData ''message'' of
              Threw e \<Rightarrow> Threw e
            | Returned m \<Rightarrow>
                Threw (Error (case m of
                                None \<Rightarrow> http_fallback r
                              | Some v \<Rightarrow> if truthy v then to_string v else http_fallback r)))
      else if http_status r = 204 then Returned JNull
      else (case json_body r of
              None \<Rightarrow> Threw (SyntaxError ''Unexpected end of JSON input'')
            | Some j \<Rightarrow> Returned j))"

text \<open>
  The frame of \<^verbatim>\<open>makeRequest\<close>: build the configuration, call \<^verbatim>\<open>fetch\<close> once,
  hand back what \<open>reply\<close> makes of the answer. The \<^verbatim>\<open>catch\<close> block logs and rethrows
  the same error.
\<close>

definition request_with ::
  "(request list \<Rightarrow> request \<Rightarrow> 'a outcome) \<Rightarrow> string \<Rightarrow> options \<Rightarrow> api_state
     \<Rightarrow> 'a outcome \<times> api_state" where
  "request_with reply url opts api =
     (let req = (url, makeRequest_config api opts)
      in (reply (requests api) req, api\<lparr>requests := requests api @ [req]\<rparr>))"

definition fetch_json :: "network \<Rightarrow> request list \<Rightarrow> request \<Rightarrow> json outcome" where
  "fetch_json net earlier req =
     (case net earlier req of Rejected e \<Rightarrow> Threw e | Responded r \<Rightarrow> handle_response r)"

definition makeRequest :: "network \<Rightarrow> string \<Rightarrow> options \<Rightarrow> api_state \<Rightarrow> json outcome \<times> api_state" where
  "makeRequest net url opts api = request_with (fetch_json net) url opts api"

definition setAuthToken :: "json \<Rightarrow> api_state \<Rightarrow> api_state" where
  "setAuthToken token api =
     api\<lparr>authToken := token, localStorage := (localStorage api)(token_key \<mapsto> to_string token)\<rparr>"

definition clearAuthToken :: "api_state \<Rightarrow> api_state" where
  "clearAuthToken api =
     api\<lparr>authToken := JNull, localStorage := (localStorage api)(token_key := None)\<rparr>"

definition isAuthenticated :: "api_state \<Rightarrow> bool" where
  "isAuthenticated api = truthy (authToken api)"

definition login_options :: "string \<Rightarrow> string \<Rightarrow> options" where
  "login_options email password =
     \<lparr>o_method = Some ''POST'', o_headers = None, o_body = Some (LoginBody email password)\<rparr>"

definition signup_options :: "string \<Rightarrow> string \<Rightarrow> string \<Rightarrow> options" where
  "signup_options name email password =
     \<lparr>o_method = Some ''POST'', o_headers = None, o_body = Some (SignupBody name email password)\<rparr>"

text \<open>
  What \<^verbatim>\<open>login\<close> and \<^verbatim>\<open>signup\<close> do with the value \<^verbatim>\<open>makeRequest\<close> returned:
  \<^verbatim>\<open>if (response.authToken) this.setAuthToken(response.authToken); return response\<close>.
\<close>

definition store_token_of :: "json outcome \<times> api_state \<Rightarrow> json outcome \<times> api_state" where
  "store_token_of ra =
     (case fst ra of
        Threw e \<Rightarrow> (Threw e, snd ra)
      | Returned resp \<Rightarrow>
          (case get_prop resp ''authToken'' of
             Threw e \<Rightarrow> (Threw e, snd ra)
           | Returned None \<Rightarrow> (Returned resp, snd ra)
           | Returned (Some t) \<Rightarrow>
               if truthy t then (Returned resp, setAuthToken t (snd ra))
               else (Returned resp, snd ra)))"

definition login :: "network \<Rightarrow> string \<Rightarrow> string \<Rightarrow> api_state \<Rightarrow> json outcome \<times> api_state" where
  "login net email password api =
     store_token_of (makeRequest net (authBaseURL @ ''/auth/login'') (login_options email password) api)"

definition signup ::
  "network \<Rightarrow> string \<Rightarrow> string \<Rightarrow> string \<Rightarrow> api_state \<Rightarrow> json outcome \<times> api_state" where
  "signup net name email password api =
     store_token_of
       (makeRequest net (authBaseURL @ ''/auth/signup'') (signup_options name email password) api)"

definition signin_page :: string where
  "signin_page = ''/main/sign-in page.html''"

subsection \<open>Password validation\<close>

definition uppercase_letters :: string where
  "uppercase_letters = ''ABCDEFGHIJKLMNOPQRSTUVWXYZ''"

definition lowercase_letters :: string where
  "lowercase_letters = ''abcdefghijklmnopqrstuvwxyz''"

definition digits :: string where
  "digits = ''0123456789''"

definition special_chars :: string where
  "special_chars = ''!@#$%^&*(),.?'' @ [CHR 0x22] @ '':{}|<>''"

text \<open>\<^verbatim>\<open>/[class]/.test(s)\<close>: some code unit of \<open>s\<close> is in the class.\<close>

definition test_class :: "string \<Rightarrow> string \<Rightarrow> bool" where
  "test_class cls s = list_ex (\<lambda>c. c \<in> set cls) s"

record requirements =
  minLength :: bool
  hasUppercase :: bool
  hasLowercase :: bool
  hasNumbers :: bool
  hasSpecialChars :: bool

record password_validation =
  strength :: string
  pw_requirements :: requirements
  isValid :: bool

definition object_values :: "requirements \<Rightarrow> bool list" where
  "object_values r = [minLength r, hasUppercase r, hasLowercase r, hasNumbers r, hasSpecialChars r]"

definition validatePassword :: "string \<Rightarrow> password_validation" where
  "validatePassword password =
     (let reqs = \<lparr>minLength = (8 \<le> length password),
                  hasUppercase = test_class uppercase_letters password,
                  hasLowercase = test_class lowercase_letters password,
                  hasNumbers = test_class digits password,
                  hasSpecialChars = test_class special_chars password\<rparr>;
          passedCount = length (filter (\<lambda>b. b) (object_values reqs))
      in \<lparr>strength = (if 4 \<le> passedCount then ''strong''
                      else if 3 \<le> passedCount then ''medium'' else ''weak''),
          pw_requirements = reqs,
          isValid = (4 \<le> passedCount)\<rparr>)"


section \<open>The typed view of the transaction endpoints\<close>

text \<open>
  The transaction controller uses the values \<^verbatim>\<open>makeRequest\<close> returns as a user, a
  transaction or an array of transactions. For these endpoints the answer of the remote
  service is taken already in that shape: a backend tells, for each request and the
  requests before it, what \<^verbatim>\<open>makeRequest\<close> returns or throws. Each method calls
  \<^verbatim>\<open>makeRequest\<close> once, so it adds one entry to \<^const>\<open>requests\<close>.
\<close>

record backend =
  current_user_reply :: "request list \<Rightarrow> request \<Rightarrow> user outcome"
  transactions_reply :: "request list \<Rightarrow> request \<Rightarrow> transaction list outcome"
  transaction_reply :: "request list \<Rightarrow> request \<Rightarrow> transaction outcome"

definition get_options :: options where
  "get_options = \<lparr>o_method = Some ''GET'', o_headers = None, o_body = None\<rparr>"

definition getCurrentUser :: "backend \<Rightarrow> api_state \<Rightarrow> user outcome \<times> api_state" where
  "getCurrentUser be api =
     request_with (current_user_reply be) (authBaseURL @ ''/auth/me'') get_options api"

definition getAllTransactions :: "backend \<Rightarrow> api_state \<Rightarrow> transaction list outcome \<times> api_state" where
  "getAllTransactions be api =
     request_with (transactions_reply be) (transactionBaseURL @ ''/transaction'') get_options api"

definition createTransaction ::
  "backend \<Rightarrow> transaction_data \<Rightarrow> api_state \<Rightarrow> transaction outcome \<times> api_state" where
  "createTransaction be transactionData api =
     request_with (transaction_reply be) (transactionBaseURL @ ''/transaction'')
       \<lparr>o_method = Some ''POST'', o_headers = None, o_body = Some (TransactionBody transactionData)\<rparr>
       api"

definition updateTransaction ::
  "backend \<Rightarrow> string \<Rightarrow> update_data \<Rightarrow> api_state \<Rightarrow> transaction outcome \<times> api_state" where
  "updateTransaction be transactionId updateData api =
     request_with (transaction_reply be) (transactionBaseURL @ ''/transaction/'' @ transactionId)
       \<lparr>o_method = Some ''PATCH'', o_headers = None, o_body = Some (UpdateBody updateData)\<rparr>
       api"

text \<open>\<^verbatim>\<open>Math.floor(100000 + Math.random() * 900000).toString()\<close>, from the random number.\<close>

definition generateOTP :: "rat \<Rightarrow> string" where
  "generateOTP rnd = string_of_nat (nat \<lfloor>100000 + rnd * 900000\<rfloor>)"


section \<open>auth-handler.js: the last signup step\<close>

text \<open>
  The signup draft is the object kept under \<^verbatim>\<open>quantum_signup_data\<close> in the session
  storage. Only the form handlers write it, as \<^verbatim>\<open>JSON.stringify\<close> of an object with
  some of the three fields, so the model keeps the object itself; \<^const>\<open>None\<close> is
  no stored draft, read as the empty object.
\<close>

record draft =
  d_name :: "string option"
  d_email :: "string option"
  d_password :: "string option"

record step3_form =
  phone_number :: "string option"
  terms :: "string option"
  marketing :: "string option"

record auth_page =
  a_api :: api_state
  signup_draft :: "draft option"
  a_messages :: "(string \<times> string) list"
  a_form_loading :: bool
  a_timers :: "(nat \<times> string) list"

text \<open>
  \<^const>\<open>a_messages\<close> lists the calls of \<^verbatim>\<open>showMessage\<close> (text and type),
  \<^const>\<open>a_timers\<close> the navigations handed to \<^verbatim>\<open>setTimeout\<close> (delay and target).
\<close>

definition showMessage :: "string \<Rightarrow> string \<Rightarrow> auth_page \<Rightarrow> auth_page" where
  "showMessage msg type p = p\<lparr>a_messages := a_messages p @ [(msg, type)]\<rparr>"

definition a_setFormLoading :: "bool \<Rightarrow> auth_page \<Rightarrow> auth_page" where
  "a_setFormLoading isLoading p = p\<lparr>a_form_loading := isLoading\<rparr>"

definition empty_draft :: draft where
  "empty_draft = \<lparr>d_name = None, d_email = None, d_password = None\<rparr>"

definition field_value :: "string option \<Rightarrow> string" where
  "field_value v = (case v of None \<Rightarrow> [] | Some s \<Rightarrow> s)"

definition incomplete_message :: string where
  "incomplete_message = ''Registration data is incomplete. Please start over.''"

definition store_preferences :: "step3_form \<Rightarrow> api_state \<Rightarrow> api_state" where
  "store_preferences form api =
     (let ls1 = (case phone_number form of
                   None \<Rightarrow> localStorage api
                 | Some ph \<Rightarrow> if ph \<noteq> [] then (localStorage api)(''quantum_phone'' \<mapsto> ph)
                              else localStorage api);
          ls2 = (if str_truthy (marketing form) then ls1(''quantum_marketing_opt_in'' \<mapsto> ''true'')
                 else ls1)
      in api\<lparr>localStorage := ls2\<rparr>)"

definition handleStep3 :: "network \<Rightarrow> step3_form \<Rightarrow> auth_page \<Rightarrow> auth_page" where
  "handleStep3 net form p =
     (if \<not> str_truthy (terms form)
      then showMessage ''You must accept the Terms of Service to continue'' ''error'' p
      else
        (let p1 = a_setFormLoading True p;
             signupData = (case signup_draft p1 of None \<Rightarrow> empty_draft | Some d \<Rightarrow> d)
         in if \<not> str_truthy (d_name signupData) \<or> \<not> str_truthy (d_email signupData)
               \<or> \<not> str_truthy (d_password signupData)
            then a_setFormLoading False (showMessage incomplete_message ''error'' p1)
            else
              (let ra = signup net (field_value (d_name signupData)) (field_value (d_email signupData))
                          (field_value (d_password signupData)) (a_api p1);
                   p2 = p1\<lparr>a_api := snd ra\<rparr>
               in case fst ra of
                    Threw e \<Rightarrow> a_setFormLoading False (showMessage (message e) ''error'' p2)
                  | Returned resp \<Rightarrow>
                      (let p3 = p2\<lparr>signup_draft := None\<rparr>;
                           p4 = p3\<lparr>a_api := store_preferences form (a_api p3)\<rparr>;
                           p5 = showMessage ''Account created successfully! Redirecting to dashboard...''
                                  ''success'' p4
                       in p5\<lparr>a_timers := a_timers p5
                                 @ [(2000, ''../dashboard/dashboard-getstarted.html'')]\<rparr>))))"


section \<open>The transaction controller\<close>

record stats =
  balance :: int
  income :: int
  expenses :: int
  pendingCount :: nat

datatype modal = DetailsModal string | OTPModal string

text \<open>
  The page as the controller sees it. \<^const>\<open>None\<close> in \<open>list_container\<close> is a page with
  neither \<^verbatim>\<open>#transaction-list\<close> nor the table body; otherwise the field holds the
  transactions whose rows the container shows (no rows: the placeholder). \<open>balance_el\<close>
  tells whether \<^verbatim>\<open>#account-balance\<close> exists, \<open>stats_shown\<close> what the statistics
  elements were last given. \<open>notices\<close> lists the calls of \<^verbatim>\<open>showNotification\<close>.
  The text of a row (shortened identifiers, the amount and the date in the locale's
  format) is a projection of its transaction and is not modelled; currency codes are
  those the formatter accepts.
\<close>

record txn_page =
  t_api :: api_state
  transactions :: "transaction list"
  currentUser :: "user option"
  list_container :: "transaction list option"
  balance_el :: bool
  stats_shown :: "stats option"
  modals :: "modal list"
  notices :: "(string \<times> string) list"
  loader_shown :: bool
  send_form_loading :: bool
  send_form_resets :: nat
  events_bound :: bool
  welcome_text :: "string option"
  t_location :: "string option"

definition null_user_error :: js_error where
  "null_user_error = TypeError ''Cannot read properties of null (reading id)''"

definition showNotification :: "string \<Rightarrow> string \<Rightarrow> txn_page \<Rightarrow> txn_page" where
  "showNotification msg type h = h\<lparr>notices := notices h @ [(msg, type)]\<rparr>"

definition showSuccess :: "string \<Rightarrow> txn_page \<Rightarrow> txn_page" where
  "showSuccess msg h = showNotification msg ''success'' h"

definition showError :: "string \<Rightarrow> txn_page \<Rightarrow> txn_page" where
  "showError msg h = showNotification msg ''error'' h"

definition showLoading :: "bool \<Rightarrow> txn_page \<Rightarrow> txn_page" where
  "showLoading show h = h\<lparr>loader_shown := show\<rparr>"

definition setFormLoading :: "bool \<Rightarrow> txn_page \<Rightarrow> txn_page" where
  "setFormLoading isLoading h = h\<lparr>send_form_loading := isLoading\<rparr>"

definition showOTPModal :: "string \<Rightarrow> txn_page \<Rightarrow> txn_page" where
  "showOTPModal transactionId h = h\<lparr>modals := modals h @ [OTPModal transactionId]\<rparr>"

definition closeModal :: "txn_page \<Rightarrow> txn_page" where
  "closeModal h = h\<lparr>modals := (case modals h of [] \<Rightarrow> [] | m # ms \<Rightarrow> ms)\<rparr>"

text \<open>
  The callbacks of \<^verbatim>\<open>filter\<close> read \<^verbatim>\<open>this.currentUser.id\<close>; they run only when
  there is a completed transaction.
\<close>

definition calculateTransactionStats :: "txn_page \<Rightarrow> stats outcome" where
  "calculateTransactionStats h =
     (let completed = filter (\<lambda>t. status t = ''completed'') (transactions h);
          pending = filter (\<lambda>t. status t = ''pending'') (transactions h)
      in case currentUser h of
           None \<Rightarrow>
             if completed = []
             then Returned \<lparr>balance = 0, income = 0, expenses = 0, pendingCount = length pending\<rparr>
             else Threw null_user_error
         | Some u \<Rightarrow>
             (let income = foldl (\<lambda>sum t. sum + amount t) 0
                             (filter (\<lambda>t. receiver_user_id t = user_id u) completed);
                  expenses = foldl (\<lambda>sum t. sum + amount t) 0
                               (filter (\<lambda>t. sender_user_id t = user_id u) completed)
              in Returned \<lparr>balance = income - expenses, income = income, expenses = expenses,
                           pendingCount = length pending\<rparr>))"

definition renderTransactions :: "txn_page \<Rightarrow> txn_page outcome" where
  "renderTransactions h =
     (case list_container h of
        None \<Rightarrow> Returned h
      | Some shown \<Rightarrow>
          if transactions h = [] then Returned (h\<lparr>list_container := Some []\<rparr>)
          else (case currentUser h of
                  None \<Rightarrow> Threw null_user_error
                | Some u \<Rightarrow> Returned (h\<lparr>list_container := Some (transactions h)\<rparr>)))"

definition updateDashboardStats :: "txn_page \<Rightarrow> txn_page outcome" where
  "updateDashboardStats h =
     (if \<not> balance_el h then Returned h
      else (case calculateTransactionStats h of
              Threw e \<Rightarrow> Threw e
            | Returned s \<Rightarrow> Returned (h\<lparr>stats_shown := Some s\<rparr>)))"

definition loadTransactions :: "backend \<Rightarrow> txn_page \<Rightarrow> txn_page" where
  "loadTransactions be h =
     (let h1 = showLoading True h;
          ra = getAllTransactions be (t_api h1);
          h2 = h1\<lparr>t_api := snd ra\<rparr>
      in showLoading False
           (case fst ra of
              Threw e \<Rightarrow> showError ''Failed to load transactions'' h2
            | Returned ts \<Rightarrow>
                (let h3 = h2\<lparr>transactions := ts\<rparr>
                 in case renderTransactions h3 of
                      Threw e \<Rightarrow> showError ''Failed to load transactions'' h3
                    | Returned h4 \<Rightarrow>
                        (case updateDashboardStats h4 of
                           Threw e \<Rightarrow> showError ''Failed to load transactions'' h4
                         | Returned h5 \<Rightarrow> h5))))"

definition updateDashboard :: "txn_page \<Rightarrow> txn_page outcome" where
  "updateDashboard h =
     (case currentUser h of
        None \<Rightarrow> Threw null_user_error
      | Some u \<Rightarrow>
          Returned (h\<lparr>welcome_text := Some (''Welcome back, ''
                                        @ takeWhile (\<lambda>c. c \<noteq> CHR '' '') (user_name u) @ ''!'')\<rparr>))"

definition init :: "backend \<Rightarrow> txn_page \<Rightarrow> txn_page" where
  "init be h =
     (if \<not> isAuthenticated (t_api h) then h\<lparr>t_location := Some signin_page\<rparr>
      else
        (let ra = getCurrentUser be (t_api h);
             h1 = h\<lparr>t_api := snd ra\<rparr>
         in case fst ra of
              Threw e \<Rightarrow> showError ''Failed to load transaction data'' h1
            | Returned u \<Rightarrow>
                (let h2 = h1\<lparr>currentUser := Some u\<rparr>;
                     h3 = loadTransactions be h2;
                     h4 = h3\<lparr>events_bound := True\<rparr>
                 in case updateDashboard h4 of
                      Threw e \<Rightarrow> showError ''Failed to load transaction data'' h4
                    | Returned h5 \<Rightarrow> h5)))"

text \<open>The constructor: an empty list, no user, then \<^verbatim>\<open>init\<close>.\<close>

definition constructed :: "api_state \<Rightarrow> transaction list option \<Rightarrow> bool \<Rightarrow> txn_page" where
  "constructed api container has_balance =
     \<lparr>t_api = api, transactions = [], currentUser = None, list_container = container,
      balance_el = has_balance, stats_shown = None, modals = [], notices = [],
      loader_shown = False, send_form_loading = False, send_form_resets = 0,
      events_bound = False, welcome_text = None, t_location = None\<rparr>"

definition new_TransactionHandler ::
  "backend \<Rightarrow> api_state \<Rightarrow> transaction list option \<Rightarrow> bool \<Rightarrow> txn_page" where
  "new_TransactionHandler be api container has_balance =
     init be (constructed api container has_balance)"

subsection \<open>Sending money\<close>

record send_form =
  f_amount :: "string option"
  f_currency :: "string option"
  f_receiver_id :: "string option"
  f_receiver_email :: "string option"

text \<open>
  What the platform contributes to one submission: \<^verbatim>\<open>parseFloat\<close> (a field that is
  \<^verbatim>\<open>null\<close> is parsed as the text \<^verbatim>\<open>null\<close>), \<^verbatim>\<open>Date.now()\<close> and
  \<^verbatim>\<open>Math.random()\<close>.
\<close>

record platform =
  parseFloat :: "string \<Rightarrow> jsnum"
  date_now :: int
  math_random :: rat

definition parse_field :: "platform \<Rightarrow> string option \<Rightarrow> jsnum" where
  "parse_field pf v = parseFloat pf (case v of None \<Rightarrow> ''null'' | Some s \<Rightarrow> s)"

definition transactionData_of :: "platform \<Rightarrow> send_form \<Rightarrow> user \<Rightarrow> transaction_data" where
  "transactionData_of pf form u =
     \<lparr>td_amount = times100 (parse_field pf (f_amount form)),
      td_currency = (if str_truthy (f_currency form) then field_value (f_currency form) else ''USD''),
      td_receiver_user_id = str_or (f_receiver_id form) (f_receiver_email form),
      td_sender_user_id = user_id u,
      td_status = ''pending'',
      td_transaction_date = date_now pf,
      td_otp_code = generateOTP (math_random pf),
      td_otp_verified = False\<rparr>"

definition handleSendMoney ::
  "backend \<Rightarrow> platform \<Rightarrow> send_form \<Rightarrow> txn_page \<Rightarrow> unit outcome \<times> txn_page" where
  "handleSendMoney be pf form h =
     (case currentUser h of
        None \<Rightarrow> (Threw null_user_error, h)
      | Some u \<Rightarrow>
          (let transactionData = transactionData_of pf form u
           in if \<not> num_truthy (td_amount transactionData) \<or> num_le_zero (td_amount transactionData)
              then (Returned (), showError ''Please enter a valid amount'' h)
              else if \<not> str_truthy (td_receiver_user_id transactionData)
              then (Returned (), showError ''Please enter recipient information'' h)
              else
                (let h1 = setFormLoading True h;
                     ra = createTransaction be transactionData (t_api h1);
                     h2 = h1\<lparr>t_api := snd ra\<rparr>
                 in (Returned (),
                     setFormLoading False
                       (case fst ra of
                          Threw e \<Rightarrow>
                            showError (if message e \<noteq> [] then message e else ''Transaction failed'') h2
                        | Returned newTransaction \<Rightarrow>
                            (let h3 = showOTPModal (txn_id newTransaction) h2;
                                 h4 = loadTransactions be h3;
                                 h5 = h4\<lparr>send_form_resets := Suc (send_form_resets h4)\<rparr>
                             in showSuccess ''Transaction initiated! Please verify with OTP.'' h5))))))"

subsection \<open>OTP verification\<close>

definition verifyOTP ::
  "backend \<Rightarrow> string \<Rightarrow> string \<Rightarrow> txn_page \<Rightarrow> transaction outcome \<times> txn_page" where
  "verifyOTP be transactionId otpCode h =
     (let ra = updateTransaction be transactionId
                 \<lparr>ud_otp_code = Some otpCode, ud_otp_verified = Some True,
                  ud_status = Some ''completed''\<rparr> (t_api h);
          h1 = h\<lparr>t_api := snd ra\<rparr>
      in case fst ra of
           Threw e \<Rightarrow> (Threw e, showError ''Invalid OTP code. Please try again.'' h1)
         | Returned updatedTransaction \<Rightarrow>
             (let h2 = showSuccess ''Transaction completed successfully!'' h1;
                  h3 = loadTransactions be h2
              in (Returned updatedTransaction, closeModal h3)))"

subsection \<open>Search and filter\<close>

text \<open>
  The two controls are read from the page: \<^const>\<open>None\<close> is a missing element.
  \<^verbatim>\<open>?.value.toLowerCase() || ''\<close> and \<^verbatim>\<open>?.value || 'all'\<close>.
\<close>

definition searchTerm_of :: "string option \<Rightarrow> string" where
  "searchTerm_of search_value = (case search_value of None \<Rightarrow> [] | Some v \<Rightarrow> toLowerCase v)"

definition statusFilter_of :: "string option \<Rightarrow> string" where
  "statusFilter_of filter_value =
     (case filter_value of None \<Rightarrow> ''all'' | Some v \<Rightarrow> if v = [] then ''all'' else v)"

text \<open>The local \<^verbatim>\<open>filtered\<close>: the loaded list, narrowed by each control that is set.\<close>

definition filtered_of :: "string \<Rightarrow> string \<Rightarrow> transaction list \<Rightarrow> transaction list" where
  "filtered_of searchTerm statusFilter txs =
     (let filtered = txs;
          filtered = (if searchTerm \<noteq> []
                      then filter (\<lambda>t. str_includes (toLowerCase (txn_id t)) searchTerm
                                       \<or> str_includes (toLowerCase (status t)) searchTerm) filtered
                      else filtered);
          filtered = (if statusFilter \<noteq> ''all''
                      then filter (\<lambda>t. status t = statusFilter) filtered
                      else filtered)
      in filtered)"

definition filterTransactions ::
  "string option \<Rightarrow> string option \<Rightarrow> txn_page \<Rightarrow> unit outcome \<times> txn_page" where
  "filterTransactions search_value filter_value h =
     (let searchTerm = searchTerm_of search_value;
          statusFilter = statusFilter_of filter_value;
          filtered = filtered_of searchTerm statusFilter (transactions h);
          originalTransactions = transactions h
      in case renderTransactions (h\<lparr>transactions := filtered\<rparr>) of
           Threw e \<Rightarrow> (Threw e, h\<lparr>transactions := filtered\<rparr>)
         | Returned h1 \<Rightarrow> (Returned (), h1\<lparr>transactions := originalTransactions\<rparr>))"

section \<open>Notions the properties are stated with\<close>

text \<open>The number of password requirements a password satisfies.\<close>

definition satisfied_count :: "string \<Rightarrow> nat" where
  "satisfied_count p =
     of_bool (8 \<le> length p)
     + of_bool (\<exists>c \<in> set p. c \<in> set uppercase_letters)
     + of_bool (\<exists>c \<in> set p. c \<in> set lowercase_letters)
     + of_bool (\<exists>c \<in> set p. c \<in> set digits)
     + of_bool (\<exists>c \<in> set p. c \<in> set special_chars)"


text \<open>A network that answers every request with the same response.\<close>

definition always :: "response \<Rightarrow> network" where
  "always r = (\<lambda>earlier req. Responded r)"

text \<open>A client that holds the token \<^verbatim>\<open>tok\<close>, and a caller that brings a header of its own.\<close>

definition signed_in_api :: api_state where
  "signed_in_api = setAuthToken (JStr ''tok'') (new_QuantumPayAPI Map.empty)"

definition traced_options :: options where
  "traced_options =
     \<lparr>o_method = Some ''GET'', o_headers = Some [''X-Request-Id'' \<mapsto> ''42''], o_body = None\<rparr>"


text \<open>
  The session states the token operations reach: the constructor restores the token from
  the storage, then any sequence of \<^verbatim>\<open>setAuthToken\<close> with a string,
  \<^verbatim>\<open>clearAuthToken\<close> and page loads (the constructor again, on the storage as it is).
\<close>

datatype token_op = SetAuthToken string | ClearAuthToken | Reload

fun apply_token_op :: "token_op \<Rightarrow> api_state \<Rightarrow> api_state" where
  "apply_token_op (SetAuthToken t) api = setAuthToken (JStr t) api"
| "apply_token_op ClearAuthToken api = clearAuthToken api"
| "apply_token_op Reload api = new_QuantumPayAPI (localStorage api)"

definition reachable_session :: "(string \<rightharpoonup> string) \<Rightarrow> token_op list \<Rightarrow> api_state" where
  "reachable_session storage ops =
     foldl (\<lambda>api op. apply_token_op op api) (new_QuantumPayAPI storage) ops"

definition token_in_sync :: "api_state \<Rightarrow> bool" where
  "token_in_sync api =
     (authToken api = (case localStorage api token_key of None \<Rightarrow> JNull | Some t \<Rightarrow> JStr t))"

text \<open>A positive number: neither \<^verbatim>\<open>NaN\<close>, nor zero, nor negative.\<close>

definition is_positive :: "jsnum \<Rightarrow> bool" where
  "is_positive n = (case n of Fin r \<Rightarrow> 0 < r | PosInf \<Rightarrow> True | _ \<Rightarrow> False)"

text \<open>A stored draft that has a name, an email and a password, none of them empty.\<close>

definition draft_complete :: "draft option \<Rightarrow> bool" where
  "draft_complete stored =
     (case stored of
        None \<Rightarrow> False
      | Some d \<Rightarrow> str_truthy (d_name d) \<and> str_truthy (d_email d) \<and> str_truthy (d_password d))"


text \<open>The requests of the controllers, as \<^verbatim>\<open>fetch\<close> receives them.\<close>

definition update_request :: "api_state \<Rightarrow> string \<Rightarrow> string \<Rightarrow> request" where
  "update_request api transactionId otpCode =
     (transactionBaseURL @ ''/transaction/'' @ transactionId,
      \<lparr>c_method = Some ''PATCH'', c_headers = defaultHeaders api,
       c_body = Some (UpdateBody \<lparr>ud_otp_code = Some otpCode, ud_otp_verified = Some True,
                                  ud_status = Some ''completed''\<rparr>)\<rparr>)"

definition list_request :: "api_state \<Rightarrow> request" where
  "list_request api =
     (transactionBaseURL @ ''/transaction'',
      \<lparr>c_method = Some ''GET'', c_headers = defaultHeaders api, c_body = None\<rparr>)"


definition signup_request :: "api_state \<Rightarrow> draft \<Rightarrow> request" where
  "signup_request api d =
     (authBaseURL @ ''/auth/signup'',
      \<lparr>c_method = Some ''POST'', c_headers = defaultHeaders api,
       c_body = Some (SignupBody (field_value (d_name d)) (field_value (d_email d))
                        (field_value (d_password d)))\<rparr>)"

subsection \<open>A fixture\<close>

text \<open>
  Alice's dashboard with four transactions: two completed incoming, one completed
  outgoing, one pending.
\<close>

definition alice :: user where
  "alice = \<lparr>user_id = ''u-alice'', user_name = ''Alice Doe'', user_email = ''alice@example.com''\<rparr>"

definition txn :: "string \<Rightarrow> int \<Rightarrow> string \<Rightarrow> string \<Rightarrow> string \<Rightarrow> transaction" where
  "txn i a sender receiver st =
     \<lparr>txn_id = i, amount = a, currency = ''USD'', sender_user_id = sender,
      receiver_user_id = receiver, status = st, transaction_date = 1700000000000,
      otp_code = ''123456'', otp_verified = (st = ''completed'')\<rparr>"

definition fixture :: "transaction list" where
  "fixture =
     [txn ''T-01'' 1000 ''u-bob'' ''u-alice'' ''completed'',
      txn ''T-02'' 250 ''u-carol'' ''u-alice'' ''completed'',
      txn ''T-03'' 400 ''u-alice'' ''u-bob'' ''completed'',
      txn ''T-04'' 999 ''u-alice'' ''u-carol'' ''pending'']"

definition fixture_backend :: backend where
  "fixture_backend =
     \<lparr>current_user_reply = (\<lambda>earlier req. Returned alice),
      transactions_reply = (\<lambda>earlier req. Returned fixture),
      transaction_reply =
        (\<lambda>earlier req. Returned (txn ''T-05'' 1250 ''u-alice'' ''u-bob'' ''pending''))\<rparr>"

definition dashboard :: txn_page where
  "dashboard =
     (constructed signed_in_api (Some []) True)\<lparr>currentUser := Some alice, transactions := fixture\<rparr>"



definition signup_page :: "draft option \<Rightarrow> auth_page" where
  "signup_page stored =
     \<lparr>a_api = new_QuantumPayAPI Map.empty, signup_draft = stored, a_messages = [],
      a_form_loading = False, a_timers = []\<rparr>"

definition accepted_form :: step3_form where
  "accepted_form = \<lparr>phone_number = Some ''5550100'', terms = Some ''on'', marketing = None\<rparr>"

definition full_draft :: draft where
  "full_draft = \<lparr>d_name = Some ''Alice Doe'', d_email = Some ''alice@example.com'',
                 d_password = Some ''Passw0rd!''\<rparr>"

definition token_network :: network where
  "token_network = always \<lparr>http_status = 200, statusText = ''OK'',
                           json_body = Some (JObj [(''authToken'', JStr ''fresh'')])\<rparr>"

definition plain_network :: network where
  "plain_network = always \<lparr>http_status = 200, statusText = ''OK'',
                           json_body = Some (JObj [(''message'', JStr ''check your inbox'')])\<rparr>"


section \<open>Properties of the HTTP client\<close>

lemma test_class_iff: "test_class cls s \<longleftrightarrow> (\<exists>c \<in> set s. c \<in> set cls)"
  by (simp add: test_class_def list_ex_iff)

lemma passedCount_eq:
  "length (filter (\<lambda>b. b) (object_values (pw_requirements (validatePassword p)))) = satisfied_count p"
  by (simp add: validatePassword_def object_values_def satisfied_count_def test_class_iff Let_def)

text \<open>
  C3. For every password, \<^verbatim>\<open>validatePassword\<close> evaluates the five requirements
  (at least 8 characters, an uppercase letter, a lowercase letter, a digit, a special
  character); with \<open>n\<close> the number of requirements satisfied the strength is
  \<^verbatim>\<open>weak\<close> for \<open>n < 3\<close>, \<^verbatim>\<open>medium\<close> for \<open>n = 3\<close> and \<^verbatim>\<open>strong\<close> for
  \<open>n \<ge> 4\<close>, and \<^verbatim>\<open>isValid\<close> is true exactly when \<open>n \<ge> 4\<close>.
\<close>

theorem validatePassword_classification:
  "pw_requirements (validatePassword p) =
     \<lparr>minLength = (8 \<le> length p),
      hasUppercase = (\<exists>c \<in> set p. c \<in> set uppercase_letters),
      hasLowercase = (\<exists>c \<in> set p. c \<in> set lowercase_letters),
      hasNumbers = (\<exists>c \<in> set p. c \<in> set digits),
      hasSpecialChars = (\<exists>c \<in> set p. c \<in> set special_chars)\<rparr>
   \<and> strength (validatePassword p) =
       (if satisfied_count p < 3 then ''weak''
        else if satisfied_count p = 3 then ''medium'' else ''strong'')
   \<and> isValid (validatePassword p) = (4 \<le> satisfied_count p)"
proof -
  have r: "pw_requirements (validatePassword p) =
     \<lparr>minLength = (8 \<le> length p),
      hasUppercase = (\<exists>c \<in> set p. c \<in> set uppercase_letters),
      hasLowercase = (\<exists>c \<in> set p. c \<in> set lowercase_letters),
      hasNumbers = (\<exists>c \<in> set p. c \<in> set digits),
      hasSpecialChars = (\<exists>c \<in> set p. c \<in> set special_chars)\<rparr>"
    by (simp add: validatePassword_def test_class_iff Let_def)
  have n: "length (filter (\<lambda>b. b) (object_values (pw_requirements (validatePassword p))))
      = satisfied_count p"
    by (rule passedCount_eq)
  have s: "strength (validatePassword p) =
      (if 4 \<le> satisfied_count p then ''strong''
       else if 3 \<le> satisfied_count p then ''medium'' else ''weak'')"
    using n by (simp add: validatePassword_def Let_def)
  have v: "isValid (validatePassword p) = (4 \<le> satisfied_count p)"
    using n by (simp add: validatePassword_def Let_def)
  show ?thesis unfolding r s v by auto
qed

text \<open>A password with four of the five requirements, one with three, one with two.\<close>

theorem validatePassword_classification_witness:
  "strength (validatePassword ''Passw0rd'') = ''strong'' \<and> isValid (validatePassword ''Passw0rd'')
   \<and> strength (validatePassword ''password1'') = ''medium''
   \<and> \<not> isValid (validatePassword ''password1'')
   \<and> strength (validatePassword ''pass1'') = ''weak'' \<and> \<not> isValid (validatePassword ''pass1'')"
  using validatePassword_classification [of "''Passw0rd''"]
    validatePassword_classification [of "''password1''"]
    validatePassword_classification [of "''pass1''"]
  by (simp add: satisfied_count_def uppercase_letters_def lowercase_letters_def digits_def
      special_chars_def)

text \<open>Without headers of the caller, the configuration carries the default headers.\<close>

lemma makeRequest_config_defaults:
  "o_headers opts = None \<Longrightarrow>
   c_headers (makeRequest_config api opts) ''Content-Type'' = Some ''application/json''
   \<and> c_headers (makeRequest_config api opts) ''Authorization''
       = (if truthy (authToken api) then Some (''Bearer '' @ to_string (authToken api)) else None)"
  by (simp add: makeRequest_config_def defaultHeaders_def Let_def)

text \<open>With headers of the caller, the configuration carries those and nothing else.\<close>

lemma makeRequest_config_caller_headers:
  "o_headers opts = Some h \<Longrightarrow> c_headers (makeRequest_config api opts) = h"
  by (simp add: makeRequest_config_def Let_def)

text \<open>
  C4. The outgoing headers of \<^verbatim>\<open>makeRequest\<close> should always contain
  \<^verbatim>\<open>Content-Type: application/json\<close> and, with a session token, the
  \<^verbatim>\<open>Authorization\<close> header, also when the caller supplies headers. The code loses
  both: for a client holding a token and a caller that brings one header of another name,
  the configuration handed to \<^verbatim>\<open>fetch\<close> has the caller's header only.
\<close>

theorem makeRequest_caller_headers_drop_defaults:
  "truthy (authToken signed_in_api)
   \<and> c_headers (makeRequest_config signed_in_api traced_options) ''Content-Type'' = None
   \<and> c_headers (makeRequest_config signed_in_api traced_options) ''Authorization'' = None
   \<and> c_headers (makeRequest_config signed_in_api traced_options) ''X-Request-Id'' = Some ''42''"
  by (simp add: makeRequest_config_def signed_in_api_def traced_options_def setAuthToken_def
      new_QuantumPayAPI_def Let_def)


text \<open>An error body that is the JSON value \<^verbatim>\<open>null\<close> makes the property read throw.\<close>

lemma handle_response_null_error_body:
  "\<not> ok r \<Longrightarrow> json_body r = Some JNull \<Longrightarrow>
   handle_response r = Threw (TypeError ''Cannot read properties of null (reading message)'')"
  by (simp add: handle_response_def)


lemma makeRequest_requests:
  "requests (snd (makeRequest net url opts api)) = requests api @ [(url, makeRequest_config api opts)]"
  by (simp add: makeRequest_def request_with_def Let_def)

lemma makeRequest_token:
  "authToken (snd (makeRequest net url opts api)) = authToken api
   \<and> localStorage (snd (makeRequest net url opts api)) = localStorage api"
  by (simp add: makeRequest_def request_with_def Let_def)




subsection \<open>Login and signup\<close>

lemma store_token_of_no_token:
  "fst ra = Returned (JObj kv) \<Longrightarrow> \<not> truthy_opt (map_of kv ''authToken'') \<Longrightarrow> store_token_of ra = ra"
  by (cases ra) (auto simp: store_token_of_def truthy_opt_def split: option.splits)

lemma store_token_of_changed:
  "authToken (snd (store_token_of ra)) \<noteq> authToken (snd ra)
     \<or> localStorage (snd (store_token_of ra)) \<noteq> localStorage (snd ra) \<Longrightarrow>
   \<exists>resp t. fst ra = Returned resp \<and> get_prop resp ''authToken'' = Returned (Some t) \<and> truthy t"
  by (auto simp: store_token_of_def split: outcome.splits option.splits if_splits)

lemma store_token_of_requests: "requests (snd (store_token_of ra)) = requests (snd ra)"
  by (auto simp: store_token_of_def setAuthToken_def split: outcome.splits option.splits)

text \<open>
  C10. When the response object that the login or signup endpoint returned has no truthy
  \<^verbatim>\<open>authToken\<close>, \<^verbatim>\<open>login\<close> and \<^verbatim>\<open>signup\<close> return that object and leave the token,
  in memory and in the storage, as it was; and whenever one of them changes the token, the
  response carried a truthy \<^verbatim>\<open>authToken\<close>.
\<close>

theorem login_signup_without_authToken:
  "(fst (makeRequest net (authBaseURL @ ''/auth/login'') (login_options email password) api)
        = Returned (JObj kv)
      \<and> \<not> truthy_opt (map_of kv ''authToken'')
    \<longrightarrow> fst (login net email password api) = Returned (JObj kv)
        \<and> authToken (snd (login net email password api)) = authToken api
        \<and> localStorage (snd (login net email password api)) = localStorage api)
   \<and> (fst (makeRequest net (authBaseURL @ ''/auth/signup'') (signup_options name email password) api)
        = Returned (JObj kv)
      \<and> \<not> truthy_opt (map_of kv ''authToken'')
    \<longrightarrow> fst (signup net name email password api) = Returned (JObj kv)
        \<and> authToken (snd (signup net name email password api)) = authToken api
        \<and> localStorage (snd (signup net name email password api)) = localStorage api)
   \<and> (authToken (snd (login net email password api)) \<noteq> authToken api
        \<or> localStorage (snd (login net email password api)) \<noteq> localStorage api
    \<longrightarrow> (\<exists>resp t. fst (makeRequest net (authBaseURL @ ''/auth/login'')
                         (login_options email password) api) = Returned resp
                 \<and> get_prop resp ''authToken'' = Returned (Some t) \<and> truthy t))
   \<and> (authToken (snd (signup net name email password api)) \<noteq> authToken api
        \<or> localStorage (snd (signup net name email password api)) \<noteq> localStorage api
    \<longrightarrow> (\<exists>resp t. fst (makeRequest net (authBaseURL @ ''/auth/signup'')
                         (signup_options name email password) api) = Returned resp
                 \<and> get_prop resp ''authToken'' = Returned (Some t) \<and> truthy t))"
proof -
  let ?l = "makeRequest net (authBaseURL @ ''/auth/login'') (login_options email password) api"
  let ?s = "makeRequest net (authBaseURL @ ''/auth/signup'') (signup_options name email password) api"
  have l1: "fst ?l = Returned (JObj kv) \<and> \<not> truthy_opt (map_of kv ''authToken'')
      \<longrightarrow> login net email password api = ?l"
    by (simp add: login_def store_token_of_no_token)
  have s1: "fst ?s = Returned (JObj kv) \<and> \<not> truthy_opt (map_of kv ''authToken'')
      \<longrightarrow> signup net name email password api = ?s"
    by (simp add: signup_def store_token_of_no_token)
  have tl: "authToken (snd ?l) = authToken api \<and> localStorage (snd ?l) = localStorage api"
    by (rule makeRequest_token)
  have ts: "authToken (snd ?s) = authToken api \<and> localStorage (snd ?s) = localStorage api"
    by (rule makeRequest_token)
  have l2: "authToken (snd (login net email password api)) \<noteq> authToken api
        \<or> localStorage (snd (login net email password api)) \<noteq> localStorage api
    \<longrightarrow> (\<exists>resp t. fst ?l = Returned resp \<and> get_prop resp ''authToken'' = Returned (Some t)
                 \<and> truthy t)"
    using store_token_of_changed [of ?l] tl by (simp add: login_def)
  have s2: "authToken (snd (signup net name email password api)) \<noteq> authToken api
        \<or> localStorage (snd (signup net name email password api)) \<noteq> localStorage api
    \<longrightarrow> (\<exists>resp t. fst ?s = Returned resp \<and> get_prop resp ''authToken'' = Returned (Some t)
                 \<and> truthy t)"
    using store_token_of_changed [of ?s] ts by (simp add: signup_def)
  show ?thesis
    using l1 s1 tl ts l2 s2 by metis
qed

text \<open>A response with a truthy token replaces the stored one.\<close>

lemma login_stores_token:
  "authToken (snd (login token_network ''alice@example.com'' ''Passw0rd!'' signed_in_api)) = JStr ''fresh''
   \<and> localStorage (snd (login token_network ''alice@example.com'' ''Passw0rd!'' signed_in_api)) token_key
       = Some ''fresh''"
  by (simp add: login_def makeRequest_def request_with_def fetch_json_def token_network_def
      always_def handle_response_def ok_def store_token_of_def setAuthToken_def Let_def)

text \<open>
  A signed-in client that logs in and signs up against a service answering without a
  token keeps the token \<^verbatim>\<open>tok\<close>.
\<close>

theorem login_signup_without_authToken_witness:
  "fst (login plain_network ''alice@example.com'' ''Passw0rd!'' signed_in_api)
     = Returned (JObj [(''message'', JStr ''check your inbox'')])
   \<and> authToken (snd (login plain_network ''alice@example.com'' ''Passw0rd!'' signed_in_api))
       = JStr ''tok''
   \<and> localStorage (snd (login plain_network ''alice@example.com'' ''Passw0rd!'' signed_in_api))
        token_key = Some ''tok''
   \<and> fst (signup plain_network ''Alice Doe'' ''alice@example.com'' ''Passw0rd!'' signed_in_api)
     = Returned (JObj [(''message'', JStr ''check your inbox'')])
   \<and> authToken (snd (signup plain_network ''Alice Doe'' ''alice@example.com'' ''Passw0rd!''
                         signed_in_api)) = JStr ''tok''"
  using login_signup_without_authToken [of plain_network "''alice@example.com''" "''Passw0rd!''"
      signed_in_api "[(''message'', JStr ''check your inbox'')]" "''Alice Doe''"]
  by (simp add: makeRequest_def request_with_def fetch_json_def plain_network_def always_def
      handle_response_def ok_def truthy_opt_def signed_in_api_def setAuthToken_def
      new_QuantumPayAPI_def Let_def)


section \<open>Properties of the session\<close>

lemma token_in_sync_new: "token_in_sync (new_QuantumPayAPI storage)"
  by (simp add: token_in_sync_def new_QuantumPayAPI_def)

lemma token_in_sync_op: "token_in_sync api \<Longrightarrow> token_in_sync (apply_token_op op api)"
  by (cases op)
     (simp_all add: token_in_sync_def setAuthToken_def clearAuthToken_def new_QuantumPayAPI_def)

lemma token_in_sync_foldl:
  "token_in_sync api \<Longrightarrow> token_in_sync (foldl (\<lambda>api op. apply_token_op op api) api ops)"
  by (induction ops arbitrary: api) (simp_all add: token_in_sync_op)

lemma token_in_sync_reachable: "token_in_sync (reachable_session storage ops)"
  by (simp add: reachable_session_def token_in_sync_foldl token_in_sync_new)

lemma in_sync_authenticated:
  "token_in_sync api \<Longrightarrow>
   isAuthenticated api \<longleftrightarrow> (\<exists>t. localStorage api token_key = Some t \<and> t \<noteq> [])"
  by (auto simp: token_in_sync_def isAuthenticated_def split: option.splits)

lemma init_not_authenticated:
  "\<not> isAuthenticated (t_api h) \<Longrightarrow> init be h = h\<lparr>t_location := Some signin_page\<rparr>"
  by (simp add: init_def)

text \<open>
  A token that the service rejects still counts as authenticated: the initialization asks
  for the user, shows an error and does not redirect.
\<close>

lemma init_rejected_token:
  "isAuthenticated (t_api h) \<Longrightarrow>
   current_user_reply be (requests (t_api h))
     (authBaseURL @ ''/auth/me'', makeRequest_config (t_api h) get_options) = Threw e \<Longrightarrow>
   t_location (init be h) = t_location h
   \<and> notices (init be h) = notices h @ [(''Failed to load transaction data'', ''error'')]
   \<and> requests (t_api (init be h))
       = requests (t_api h) @ [(authBaseURL @ ''/auth/me'', makeRequest_config (t_api h) get_options)]"
  by (simp add: init_def getCurrentUser_def request_with_def showError_def showNotification_def
      Let_def)

text \<open>
  C8, as the code has it. In every session state reached through the token operations,
  \<^verbatim>\<open>isAuthenticated()\<close> is true exactly when the storage holds a token that is not the
  empty string; and when \<^verbatim>\<open>isAuthenticated()\<close> is false, the initialization of the
  transaction controller only sets the location to the sign-in page: no request is made.
\<close>

theorem session_token_invariant:
  "(isAuthenticated (reachable_session storage ops)
      \<longleftrightarrow> (\<exists>t. localStorage (reachable_session storage ops) token_key = Some t \<and> t \<noteq> []))
   \<and> (t_api h = reachable_session storage ops \<and> \<not> isAuthenticated (reachable_session storage ops)
        \<longrightarrow> init be h = h\<lparr>t_location := Some signin_page\<rparr>
            \<and> requests (t_api (init be h)) = requests (t_api h))"
  using in_sync_authenticated [OF token_in_sync_reachable, of storage ops]
  by (auto simp: init_not_authenticated)

text \<open>
  A stored token that is cleared: the controller of the next dashboard page redirects and
  fetches nothing. A token that is set and survives a page load: authenticated.
\<close>

theorem session_token_invariant_witness:
  "\<not> isAuthenticated (reachable_session [token_key \<mapsto> ''tok''] [ClearAuthToken])
   \<and> t_location (init fixture_backend
        (constructed (reachable_session [token_key \<mapsto> ''tok''] [ClearAuthToken]) (Some []) True))
       = Some ''/main/sign-in page.html''
   \<and> requests (t_api (init fixture_backend
        (constructed (reachable_session [token_key \<mapsto> ''tok''] [ClearAuthToken]) (Some []) True)))
       = []
   \<and> isAuthenticated (reachable_session Map.empty [SetAuthToken ''tok'', Reload])"
  using session_token_invariant [of "[token_key \<mapsto> ''tok'']" "[ClearAuthToken]"
      "constructed (reachable_session [token_key \<mapsto> ''tok''] [ClearAuthToken]) (Some []) True"
      fixture_backend]
    session_token_invariant [of Map.empty "[SetAuthToken ''tok'', Reload]"
      "constructed (reachable_session Map.empty [SetAuthToken ''tok'', Reload]) (Some []) True"
      fixture_backend]
  by (simp add: reachable_session_def clearAuthToken_def setAuthToken_def new_QuantumPayAPI_def
      constructed_def signin_page_def token_key_def)

text \<open>
  C8 as the specification states it fails for the empty string: after
  \<^verbatim>\<open>setAuthToken('')\<close> the storage holds a token, and \<^verbatim>\<open>isAuthenticated()\<close> is false.
\<close>

theorem stored_empty_token_not_authenticated:
  "localStorage (reachable_session Map.empty [SetAuthToken []]) token_key = Some []
   \<and> \<not> isAuthenticated (reachable_session Map.empty [SetAuthToken []])"
  by (simp add: reachable_session_def setAuthToken_def isAuthenticated_def new_QuantumPayAPI_def)


section \<open>Properties of the signup flow\<close>

lemma config_no_headers:
  "o_headers opts = None \<Longrightarrow>
   makeRequest_config api opts
     = \<lparr>c_method = o_method opts, c_headers = defaultHeaders api, c_body = o_body opts\<rparr>"
  by (simp add: makeRequest_config_def Let_def)

lemma signup_requests:
  "requests (snd (signup net n e pw api))
     = requests api @ [(authBaseURL @ ''/auth/signup'',
                        \<lparr>c_method = Some ''POST'', c_headers = defaultHeaders api,
                         c_body = Some (SignupBody n e pw)\<rparr>)]"
  by (simp add: signup_def store_token_of_requests makeRequest_requests signup_options_def
      config_no_headers)

lemma handleStep3_terms_refused:
  "\<not> str_truthy (terms form) \<Longrightarrow>
   handleStep3 net form p
     = showMessage ''You must accept the Terms of Service to continue'' ''error'' p"
  by (simp add: handleStep3_def)

lemma handleStep3_incomplete:
  "str_truthy (terms form) \<Longrightarrow> \<not> draft_complete (signup_draft p) \<Longrightarrow>
   handleStep3 net form p
     = a_setFormLoading False (showMessage incomplete_message ''error'' (a_setFormLoading True p))"
  by (auto simp: handleStep3_def Let_def draft_complete_def empty_draft_def a_setFormLoading_def
      str_truthy_def split: option.splits)

lemma handleStep3_complete_requests:
  "str_truthy (terms form) \<Longrightarrow> signup_draft p = Some d \<Longrightarrow> draft_complete (Some d) \<Longrightarrow>
   requests (a_api (handleStep3 net form p)) = requests (a_api p) @ [signup_request (a_api p) d]"
  by (auto simp: handleStep3_def Let_def draft_complete_def a_setFormLoading_def showMessage_def
      store_preferences_def signup_requests signup_request_def split: outcome.splits option.splits)

text \<open>
  C9. On a step-3 submission with the terms accepted: when the stored draft lacks a name,
  an email or a password (or nothing is stored), \<^verbatim>\<open>handleStep3\<close> shows the message
  \<^verbatim>\<open>Registration data is incomplete. Please start over.\<close> and the client is left as it
  was, so no request is made; with all three present one request goes to the signup
  endpoint; and a request is made only when all three are present.
\<close>

theorem handleStep3_incomplete_draft:
  assumes "str_truthy (terms form)"
  shows "(\<not> draft_complete (signup_draft p)
           \<longrightarrow> a_api (handleStep3 net form p) = a_api p
               \<and> a_messages (handleStep3 net form p)
                   = a_messages p @ [(incomplete_message, ''error'')]
               \<and> signup_draft (handleStep3 net form p) = signup_draft p
               \<and> a_timers (handleStep3 net form p) = a_timers p)
     \<and> (signup_draft p = Some d \<and> draft_complete (Some d)
           \<longrightarrow> requests (a_api (handleStep3 net form p))
                 = requests (a_api p) @ [signup_request (a_api p) d])
     \<and> (requests (a_api (handleStep3 net form p)) \<noteq> requests (a_api p)
           \<longrightarrow> draft_complete (signup_draft p))"
proof -
  have i: "\<not> draft_complete (signup_draft p)
           \<longrightarrow> a_api (handleStep3 net form p) = a_api p
               \<and> a_messages (handleStep3 net form p)
                   = a_messages p @ [(incomplete_message, ''error'')]
               \<and> signup_draft (handleStep3 net form p) = signup_draft p
               \<and> a_timers (handleStep3 net form p) = a_timers p"
    using assms by (simp add: handleStep3_incomplete a_setFormLoading_def showMessage_def)
  have c: "signup_draft p = Some d \<and> draft_complete (Some d)
           \<longrightarrow> requests (a_api (handleStep3 net form p))
                 = requests (a_api p) @ [signup_request (a_api p) d]"
    using assms by (simp add: handleStep3_complete_requests)
  show ?thesis using i c by metis
qed

text \<open>No stored draft: the message and no request. A full draft: the signup request.\<close>

theorem handleStep3_incomplete_draft_witness:
  "a_messages (handleStep3 token_network accepted_form (signup_page None))
     = [(''Registration data is incomplete. Please start over.'', ''error'')]
   \<and> requests (a_api (handleStep3 token_network accepted_form (signup_page None))) = []
   \<and> requests (a_api (handleStep3 token_network accepted_form (signup_page (Some full_draft))))
       = [(authBaseURL @ ''/auth/signup'',
           \<lparr>c_method = Some ''POST'', c_headers = [''Content-Type'' \<mapsto> ''application/json''],
            c_body = Some (SignupBody ''Alice Doe'' ''alice@example.com'' ''Passw0rd!'')\<rparr>)]"
  using handleStep3_incomplete_draft [of accepted_form "signup_page None" token_network full_draft]
    handleStep3_incomplete_draft [of accepted_form "signup_page (Some full_draft)" token_network
      full_draft]
  by (simp add: accepted_form_def signup_page_def str_truthy_def draft_complete_def full_draft_def
      incomplete_message_def signup_request_def field_value_def new_QuantumPayAPI_def
      defaultHeaders_def Let_def)


section \<open>Properties of the transaction controller\<close>

lemma request_with_requests:
  "requests (snd (request_with reply url opts api)) = requests api @ [(url, makeRequest_config api opts)]"
  by (simp add: request_with_def Let_def)

lemma request_with_fst:
  "fst (request_with reply url opts api) = reply (requests api) (url, makeRequest_config api opts)"
  by (simp add: request_with_def Let_def)

lemma request_with_token:
  "authToken (snd (request_with reply url opts api)) = authToken api"
  "localStorage (snd (request_with reply url opts api)) = localStorage api"
  by (simp_all add: request_with_def Let_def)

lemma defaultHeaders_cong:
  "authToken a = authToken b \<Longrightarrow> defaultHeaders a = defaultHeaders b"
  by (simp add: defaultHeaders_def Let_def)

lemma renderTransactions_api: "renderTransactions h = Returned h' \<Longrightarrow> t_api h' = t_api h"
  by (auto simp: renderTransactions_def split: option.splits if_splits)

lemma updateDashboardStats_api: "updateDashboardStats h = Returned h' \<Longrightarrow> t_api h' = t_api h"
  by (auto simp: updateDashboardStats_def split: outcome.splits if_splits)

lemma loadTransactions_api:
  "t_api (loadTransactions be h) = snd (getAllTransactions be (t_api h))"
  by (auto simp: loadTransactions_def Let_def showLoading_def showError_def showNotification_def
      dest!: renderTransactions_api updateDashboardStats_api split: outcome.splits)

lemma loadTransactions_requests:
  "requests (t_api (loadTransactions be h)) = requests (t_api h) @ [list_request (t_api h)]"
  by (simp add: loadTransactions_api getAllTransactions_def request_with_requests list_request_def
      get_options_def config_no_headers)

text \<open>The constructor on the fixture: the user, the loaded list, its rows and the statistics.\<close>

lemma new_TransactionHandler_fixture:
  "new_TransactionHandler fixture_backend signed_in_api (Some []) True
     = dashboard
         \<lparr>t_api := signed_in_api\<lparr>requests := [(authBaseURL @ ''/auth/me'',
                                                makeRequest_config signed_in_api get_options),
                                               list_request signed_in_api]\<rparr>,
          list_container := Some fixture,
          stats_shown := Some \<lparr>balance = 850, income = 1250, expenses = 400, pendingCount = 1\<rparr>,
          events_bound := True,
          welcome_text := Some ''Welcome back, Alice!''\<rparr>"
  by (simp add: new_TransactionHandler_def init_def isAuthenticated_def getCurrentUser_def
      request_with_def loadTransactions_def getAllTransactions_def showLoading_def
      renderTransactions_def updateDashboardStats_def calculateTransactionStats_def
      updateDashboard_def constructed_def dashboard_def fixture_backend_def fixture_def txn_def
      alice_def signed_in_api_def setAuthToken_def new_QuantumPayAPI_def list_request_def
      get_options_def makeRequest_config_def defaultHeaders_def Let_def)

subsection \<open>OTP verification\<close>

text \<open>
  C1. For every transaction identifier and every entered OTP, \<^verbatim>\<open>verifyOTP\<close> first sends
  the update \<^verbatim>\<open>otp_code = <entered>, otp_verified = true, status = completed\<close> to the
  transaction, whatever the page holds, and its outcome is the answer to that update and
  nothing else: the entered code is compared with nothing. After a successful update the
  list is fetched again.
\<close>

theorem verifyOTP_update_request:
  "requests (t_api (snd (verifyOTP be transactionId otpCode h)))
     = requests (t_api h) @ [update_request (t_api h) transactionId otpCode]
       @ (case fst (verifyOTP be transactionId otpCode h) of
            Threw e \<Rightarrow> []
          | Returned updated \<Rightarrow> [list_request (t_api h)])
   \<and> fst (verifyOTP be transactionId otpCode h)
       = transaction_reply be (requests (t_api h)) (update_request (t_api h) transactionId otpCode)"
  by (auto simp: verifyOTP_def Let_def updateTransaction_def request_with_requests request_with_fst
      update_request_def config_no_headers showError_def showSuccess_def showNotification_def
      closeModal_def loadTransactions_requests list_request_def request_with_token
      intro: defaultHeaders_cong split: outcome.splits)

text \<open>
  Two different codes for the pending transaction of the fixture, whose generated code is
  \<^verbatim>\<open>123456\<close>: each is sent back with the same completed update.
\<close>

theorem verifyOTP_update_request_witness:
  "requests (t_api (snd (verifyOTP fixture_backend ''T-04'' ''000000'' dashboard)))
     = [(transactionBaseURL @ ''/transaction/T-04'',
         \<lparr>c_method = Some ''PATCH'', c_headers = defaultHeaders signed_in_api,
          c_body = Some (UpdateBody \<lparr>ud_otp_code = Some ''000000'', ud_otp_verified = Some True,
                                     ud_status = Some ''completed''\<rparr>)\<rparr>),
        list_request signed_in_api]
   \<and> requests (t_api (snd (verifyOTP fixture_backend ''T-04'' ''999999'' dashboard)))
     = [(transactionBaseURL @ ''/transaction/T-04'',
         \<lparr>c_method = Some ''PATCH'', c_headers = defaultHeaders signed_in_api,
          c_body = Some (UpdateBody \<lparr>ud_otp_code = Some ''999999'', ud_otp_verified = Some True,
                                     ud_status = Some ''completed''\<rparr>)\<rparr>),
        list_request signed_in_api]"
  using verifyOTP_update_request [of fixture_backend "''T-04''" "''000000''" dashboard]
    verifyOTP_update_request [of fixture_backend "''T-04''" "''999999''" dashboard]
  by (simp add: update_request_def dashboard_def constructed_def fixture_backend_def
      signed_in_api_def setAuthToken_def new_QuantumPayAPI_def)

subsection \<open>Statistics\<close>






subsection \<open>Sending money\<close>



text \<open>Multiplying by 100 keeps the sign, zero and \<^verbatim>\<open>NaN\<close>.\<close>

lemma is_positive_times100: "is_positive (times100 n) \<longleftrightarrow> is_positive n"
  by (cases n) (auto simp: is_positive_def)







text \<open>Before the controller has a user, a submission throws and requests nothing.\<close>

lemma handleSendMoney_without_user:
  "currentUser h = None \<Longrightarrow> handleSendMoney be pf form h = (Threw null_user_error, h)"
  by (simp add: handleSendMoney_def)



subsection \<open>Search and filter\<close>

text \<open>Lowering a capital adds 32 to its code.\<close>

lemma lower_char_plus_32:
  "lower_char c =
     (if (65 \<le> (of_char c :: nat) \<and> (of_char c :: nat) \<le> 90)
          \<or> (192 \<le> (of_char c :: nat) \<and> (of_char c :: nat) \<le> 222 \<and> (of_char c :: nat) \<noteq> 215)
      then char_of ((of_char c :: nat) + 32) else c)"
proof (cases c)
  case (Char b0 b1 b2 b3 b4 b5 b6 b7)
  show ?thesis
    unfolding Char
    by (cases b0; cases b1; cases b2; cases b3; cases b4; cases b5; cases b6; cases b7)
       (simp_all add: char_of_def bit_Suc_0_iff)
qed

lemma str_includes_Nil [simp]: "str_includes hay []"
  by (cases hay) simp_all

text \<open>\<^const>\<open>str_includes\<close> is containment as a contiguous part.\<close>

lemma str_includes_iff: "str_includes hay needle \<longleftrightarrow> (\<exists>ps ss. hay = ps @ needle @ ss)"
proof (induction hay)
  case Nil
  then show ?case by simp
next
  case (Cons c cs)
  show ?case
  proof
    assume "str_includes (c # cs) needle"
    then consider "prefix needle (c # cs)" | "str_includes cs needle" by auto
    then show "\<exists>ps ss. c # cs = ps @ needle @ ss"
    proof cases
      case 1
      then obtain ss where "c # cs = needle @ ss" by (auto simp: prefix_def)
      then have "c # cs = [] @ needle @ ss" by simp
      then show ?thesis by blast
    next
      case 2
      then obtain ps ss where "cs = ps @ needle @ ss" using Cons.IH by blast
      then have "c # cs = (c # ps) @ needle @ ss" by simp
      then show ?thesis by blast
    qed
  next
    assume "\<exists>ps ss. c # cs = ps @ needle @ ss"
    then obtain ps ss where e: "c # cs = ps @ needle @ ss" by blast
    show "str_includes (c # cs) needle"
    proof (cases ps)
      case Nil
      then have "prefix needle (c # cs)" using e by (simp add: prefix_def)
      then show ?thesis by simp
    next
      case (Cons p ps')
      then have "cs = ps' @ needle @ ss" using e by simp
      then have "str_includes cs needle" using Cons.IH by blast
      then show ?thesis by simp
    qed
  qed
qed



text \<open>
  The restore is the statement after the call of \<^verbatim>\<open>renderTransactions\<close>: a render that
  throws leaves the filtered list in \<^verbatim>\<open>this.transactions\<close>.
\<close>

lemma filterTransactions_render_throws:
  "renderTransactions
     (h\<lparr>transactions := filtered_of (searchTerm_of search_value) (statusFilter_of filter_value)
                           (transactions h)\<rparr>) = Threw e \<Longrightarrow>
   filterTransactions search_value filter_value h
     = (Threw e,
        h\<lparr>transactions := filtered_of (searchTerm_of search_value) (statusFilter_of filter_value)
                             (transactions h)\<rparr>)"
  by (simp add: filterTransactions_def Let_def)



end
